theory Spec2Isabelle
  imports Complex_Main "HOL-Library.Multiset"
begin

section \<open>Python values and exceptions\<close>

text \<open>
  The exceptions the modelled code can raise. A call that may raise returns
  \<open>exn + 'a\<close>, with \<open>Inl\<close> carrying the exception.
\<close>

datatype exn =
    ValueError | TypeError | AttributeError | NameError | UnboundLocalError
  | KeyError | IndexError | ZeroDivisionError | InvalidId | JSONDecodeError
  | ProviderError | StoreError | RetryError

text \<open>
  Python floats are idealised as real numbers throughout. Texts are \<open>string\<close>s, one
  \<open>char\<close> standing for one character of a Python \<open>str\<close>; the string literals of the
  source are written without their accents.
\<close>

text \<open>
  JSON values, as \<open>json.loads\<close> returns them and as the documents of the store hold
  them. A dictionary is an association list read with \<open>map_of\<close>.
\<close>

datatype json =
    JNull | JBool bool | JNum real | JStr string | JList "json list"
  | JObj "(string \<times> json) list"

type_synonym dict = "(string \<times> json) list"

definition dict_get :: "dict \<Rightarrow> string \<Rightarrow> json \<Rightarrow> json" where
  "dict_get d k dflt = (case map_of d k of None \<Rightarrow> dflt | Some v \<Rightarrow> v)"

section \<open>Cosine similarity (rag\_manager.py, \_cosine\_similarity)\<close>

text \<open>
  \<open>np.dot\<close> on two one-dimensional arrays raises ValueError when their lengths
  differ; it does not truncate to the shorter one.
\<close>

definition np_dot :: "real list \<Rightarrow> real list \<Rightarrow> exn + real" where
  "np_dot vec1 vec2 =
     (if length vec1 = length vec2
      then Inr (sum_list (map (\<lambda>(x, y). x * y) (zip vec1 vec2)))
      else Inl ValueError)"

definition np_linalg_norm :: "real list \<Rightarrow> real" where
  "np_linalg_norm vec = sqrt (sum_list (map (\<lambda>x. x * x) vec))"

text \<open>Division is written as a checked operation, so that a division by zero is visible.\<close>

definition true_divide :: "real \<Rightarrow> real \<Rightarrow> exn + real" where
  "true_divide a b = (if b = 0 then Inl ZeroDivisionError else Inr (a / b))"

definition cosine_similarity :: "real list \<Rightarrow> real list \<Rightarrow> exn + real" where
  "cosine_similarity vec1 vec2 =
     (case np_dot vec1 vec2 of
        Inl e \<Rightarrow> Inl e
      | Inr dot_product \<Rightarrow>
          (let norm_vec1 = np_linalg_norm vec1;
               norm_vec2 = np_linalg_norm vec2
           in if norm_vec1 = 0 \<or> norm_vec2 = 0 then Inr 0
              else true_divide dot_product (norm_vec1 * norm_vec2)))"

section \<open>The embeddings collection and the exhaustive scan (vector\_search)\<close>

text \<open>
  A document of the \<open>embeddings\<close> collection. MongoDB documents are dictionaries: every
  field but \<open>_id\<close> may be absent, and the code tests for \<open>vector_embedding\<close>.
\<close>

record embedding_doc =
  emb_id :: nat
  emb_redacao_id :: "nat option"
  emb_titulo :: "string option"
  emb_texto_snippet :: "string option"
  emb_vector_embedding :: "real list option"
  emb_data_criacao :: "nat option"

text \<open>An entry of the list \<open>similarities\<close> built by the scan.\<close>

record similarity =
  sim_id :: nat
  sim_redacao_id :: nat
  sim_titulo :: "string option"
  sim_texto_snippet :: string
  sim_score :: real

text \<open>
  The loop over \<open>all_embeddings\<close>. The similarity is computed first, then the entry is
  built: \<open>doc["redacao_id"]\<close> raises KeyError on a document without that field, while
  \<open>doc.get\<close> supplies a default.
\<close>

fun scan_similarities :: "real list \<Rightarrow> embedding_doc list \<Rightarrow> exn + similarity list" where
  "scan_similarities query_embedding [] = Inr []"
| "scan_similarities query_embedding (doc # docs) =
     (case emb_vector_embedding doc of
        None \<Rightarrow> scan_similarities query_embedding docs
      | Some doc_vector \<Rightarrow>
          (case cosine_similarity query_embedding doc_vector of
             Inl e \<Rightarrow> Inl e
           | Inr s \<Rightarrow>
               (case emb_redacao_id doc of
                  None \<Rightarrow> Inl KeyError
                | Some r \<Rightarrow>
                    (case scan_similarities query_embedding docs of
                       Inl e \<Rightarrow> Inl e
                     | Inr rest \<Rightarrow>
                         Inr (\<lparr>sim_id = emb_id doc, sim_redacao_id = r,
                               sim_titulo = emb_titulo doc,
                               sim_texto_snippet =
                                 (case emb_texto_snippet doc of None \<Rightarrow> [] | Some t \<Rightarrow> t),
                               sim_score = s\<rparr> # rest)))))"

text \<open>
  \<open>xs[:limit]\<close>: a negative limit counts from the end of the list.
\<close>

definition slice_to :: "'a list \<Rightarrow> int \<Rightarrow> 'a list" where
  "slice_to xs limit =
     (if 0 \<le> limit then take (nat limit) xs
      else take (nat (int (length xs) + limit)) xs)"

text \<open>
  \<open>similarities.sort(key=score, reverse=True)\<close> is a stable sort into descending order:
  entries of equal score keep their order, as \<open>sort_key\<close> on the negated score does.
\<close>

definition fallback_search :: "real list \<Rightarrow> embedding_doc list \<Rightarrow> int \<Rightarrow> exn + similarity list" where
  "fallback_search query_embedding all_embeddings limit =
     (case scan_similarities query_embedding all_embeddings of
        Inl e \<Rightarrow> Inl e
      | Inr similarities \<Rightarrow>
          Inr (slice_to (sort_key (\<lambda>x. - sim_score x) similarities) limit))"

section \<open>The document store\<close>

text \<open>
  An ObjectId is a 12-byte value, written as 24 hexadecimal digits; it is modelled by
  its numeric value. \<open>ObjectId(s)\<close> raises InvalidId on any other string.
\<close>

definition hex_digit :: "char \<Rightarrow> nat option" where
  "hex_digit c =
     map_of [(CHR ''0'', 0), (CHR ''1'', 1), (CHR ''2'', 2), (CHR ''3'', 3),
             (CHR ''4'', 4), (CHR ''5'', 5), (CHR ''6'', 6), (CHR ''7'', 7),
             (CHR ''8'', 8), (CHR ''9'', 9), (CHR ''a'', 10), (CHR ''b'', 11),
             (CHR ''c'', 12), (CHR ''d'', 13), (CHR ''e'', 14), (CHR ''f'', 15),
             (CHR ''A'', 10), (CHR ''B'', 11), (CHR ''C'', 12), (CHR ''D'', 13),
             (CHR ''E'', 14), (CHR ''F'', 15)] c"

fun hex_value :: "nat \<Rightarrow> string \<Rightarrow> nat option" where
  "hex_value acc [] = Some acc"
| "hex_value acc (c # cs) =
     (case hex_digit c of None \<Rightarrow> None | Some d \<Rightarrow> hex_value (16 * acc + d) cs)"

definition ObjectId :: "string \<Rightarrow> exn + nat" where
  "ObjectId s =
     (if length s = 24
      then (case hex_value 0 s of None \<Rightarrow> Inl InvalidId | Some n \<Rightarrow> Inr n)
      else Inl InvalidId)"

text \<open>
  Documents of the collections \<open>redacoes\<close>, \<open>analises\<close> and \<open>corpus_exemplos\<close>. The
  recommendations of an analysis are a list whose items are JSON values, as the scoring
  provider returned them: strings as a rule, but nothing in the code checks it.
\<close>

record redacao_doc =
  red_id :: nat
  red_titulo :: "string option"
  red_status :: "string option"
  red_data_conclusao :: "nat option"
  red_texto_extraido :: "string option"
  red_mensagem_erro :: "string option"
  red_analise_disponivel :: "bool option"

record analise_doc =
  ana_id :: nat
  ana_redacao_id :: "nat option"
  ana_nota_geral :: "real option"
  ana_resumo_executivo :: "string option"
  ana_recomendacoes :: "json list option"
  ana_pontos_fortes :: "string list option"

record corpus_doc =
  cor_id :: nat
  cor_titulo :: "string option"
  cor_categoria :: "string option"
  cor_nivel_qualidade :: "real option"
  cor_temas :: "string list option"

text \<open>
  An element of the result of \<open>vector_search\<close>: the native query projects fields that
  may be absent, so the consumer reads them with \<open>get\<close>.
\<close>

record hit =
  hit_id :: nat
  hit_redacao_id :: "nat option"
  hit_titulo :: "string option"
  hit_texto_snippet :: "string option"
  hit_score :: "real option"

text \<open>
  The operations of the store that the code calls. Each of them can fail (a lost
  connection, a server error): \<open>db_raises\<close> tells which do, and a failing operation
  raises StoreError and changes nothing.
\<close>

datatype db_op =
    FindEmbeddings | FindOneEmbedding | UpdateOneEmbedding | InsertOneEmbedding
  | AggregateEmbeddings | FindOneRedacao nat | UpdateOneRedacao | FindOneAnalise nat
  | FindCorpus

text \<open>
  \<open>db_vector_search\<close> is the answer of the native \<open>$vectorSearch\<close> stage, a capability
  of the server and not code of this repository. \<open>db_next_id\<close> is the next ObjectId
  that \<open>insert_one\<close> generates.
\<close>

record db =
  db_embeddings :: "embedding_doc list"
  db_redacoes :: "redacao_doc list"
  db_analises :: "analise_doc list"
  db_corpus_exemplos :: "corpus_doc list"
  db_next_id :: nat
  db_raises :: "db_op \<Rightarrow> bool"
  db_vector_search :: "real list \<Rightarrow> int \<Rightarrow> hit list"

definition guard_op :: "db \<Rightarrow> db_op \<Rightarrow> 'a \<Rightarrow> exn + 'a" where
  "guard_op d opn r = (if db_raises d opn then Inl StoreError else Inr r)"

text \<open>\<open>update_one\<close> changes the first document that matches the filter, if any.\<close>

fun update_first :: "('a \<Rightarrow> bool) \<Rightarrow> ('a \<Rightarrow> 'a) \<Rightarrow> 'a list \<Rightarrow> 'a list" where
  "update_first P f [] = []"
| "update_first P f (x # xs) = (if P x then f x # xs else x # update_first P f xs)"

section \<open>The retrieval manager (rag\_manager.py)\<close>

text \<open>
  The embedding provider answers a text with \<open>response.data\<close>, a list of embeddings, or
  raises. \<open>openai_client\<close> is None when no API key is configured.
\<close>

record rag_manager =
  openai_client :: "(string \<Rightarrow> exn + real list list) option"
  has_vector_search :: bool

text \<open>
  \<open>generate_embedding\<close>: the check of the client is outside the \<open>try\<close>, so its
  ValueError reaches the caller; inside, every exception, also the IndexError of
  \<open>response.data[0]\<close> on an empty answer, gives the vector of 1536 zeros.
\<close>

definition generate_embedding :: "rag_manager \<Rightarrow> string \<Rightarrow> exn + real list" where
  "generate_embedding self text =
     (case openai_client self of
        None \<Rightarrow> Inl ValueError
      | Some create \<Rightarrow>
          (case create (take 8000 text) of
             Inl e \<Rightarrow> Inr (replicate 1536 0)
           | Inr [] \<Rightarrow> Inr (replicate 1536 0)
           | Inr (embedding # rest) \<Rightarrow> Inr embedding))"




definition hit_of :: "similarity \<Rightarrow> hit" where
  "hit_of x = \<lparr>hit_id = sim_id x, hit_redacao_id = Some (sim_redacao_id x),
              hit_titulo = sim_titulo x, hit_texto_snippet = Some (sim_texto_snippet x),
              hit_score = Some (sim_score x)\<rparr>"

text \<open>
  \<open>vector_search\<close>: the native query runs when the index was found at start-up, and an
  exception of it is logged only; the exhaustive scan runs whenever \<open>results\<close> is
  still empty.
\<close>

definition vector_search :: "rag_manager \<Rightarrow> db \<Rightarrow> string \<Rightarrow> int \<Rightarrow> exn + hit list" where
  "vector_search self d query_text limit =
     (case generate_embedding self query_text of
        Inl e \<Rightarrow> Inl e
      | Inr query_embedding \<Rightarrow>
          (let results =
                 (if has_vector_search self
                  then (case guard_op d AggregateEmbeddings
                               (db_vector_search d query_embedding limit) of
                          Inl e \<Rightarrow> []
                        | Inr r \<Rightarrow> r)
                  else [])
           in if results = []
              then (case guard_op d FindEmbeddings (db_embeddings d) of
                      Inl e \<Rightarrow> Inl e
                    | Inr all_embeddings \<Rightarrow>
                        (case fallback_search query_embedding all_embeddings limit of
                           Inl e \<Rightarrow> Inl e
                         | Inr similarities \<Rightarrow> Inr (map hit_of similarities)))
              else Inr results))"

text \<open>An entry of the result of \<open>get_similar_redacoes\<close>.\<close>

record analise_resumo =
  nota_geral :: real
  resumo :: string
  principais_recomendacoes :: "json list"

record similar_redacao =
  sr_id :: nat
  sr_titulo :: string
  sr_texto_snippet :: string
  sr_similarity_score :: real
  sr_analise :: "analise_resumo option"

text \<open>
  The body of the loop of \<open>get_similar_redacoes\<close> for one hit: \<open>Inr None\<close> is the
  \<open>continue\<close> of a hit whose document is missing.
\<close>

definition join_hit :: "db \<Rightarrow> hit \<Rightarrow> exn + similar_redacao option" where
  "join_hit d emb =
     (case hit_redacao_id emb of
        None \<Rightarrow> Inl KeyError
      | Some redacao_id \<Rightarrow>
          (case guard_op d (FindOneRedacao redacao_id)
                  (find (\<lambda>r. red_id r = redacao_id) (db_redacoes d)) of
             Inl e \<Rightarrow> Inl e
           | Inr None \<Rightarrow> Inr None
           | Inr (Some redacao) \<Rightarrow>
               (case guard_op d (FindOneAnalise redacao_id)
                       (find (\<lambda>a. ana_redacao_id a = Some redacao_id) (db_analises d)) of
                  Inl e \<Rightarrow> Inl e
                | Inr analise \<Rightarrow>
                    Inr (Some
                      \<lparr>sr_id = red_id redacao,
                       sr_titulo = (case red_titulo redacao of None \<Rightarrow> ''Sem titulo'' | Some t \<Rightarrow> t),
                       sr_texto_snippet = (case hit_texto_snippet emb of None \<Rightarrow> [] | Some t \<Rightarrow> t),
                       sr_similarity_score = (case hit_score emb of None \<Rightarrow> 0 | Some s \<Rightarrow> s),
                       sr_analise =
                         map_option
                           (\<lambda>a. \<lparr>nota_geral = (case ana_nota_geral a of None \<Rightarrow> 0 | Some n \<Rightarrow> n),
                                 resumo = (case ana_resumo_executivo a of None \<Rightarrow> [] | Some t \<Rightarrow> t),
                                 principais_recomendacoes =
                                   take 3 (case ana_recomendacoes a of None \<Rightarrow> [] | Some rs \<Rightarrow> rs)\<rparr>)
                           analise\<rparr>))))"

text \<open>The loop: an exception of one iteration is logged and the loop goes on.\<close>

fun join_hits :: "db \<Rightarrow> hit list \<Rightarrow> similar_redacao list" where
  "join_hits d [] = []"
| "join_hits d (emb # embs) =
     (case join_hit d emb of
        Inr (Some result) \<Rightarrow> result # join_hits d embs
      | Inr None \<Rightarrow> join_hits d embs
      | Inl e \<Rightarrow> join_hits d embs)"

definition get_similar_redacoes ::
  "rag_manager \<Rightarrow> db \<Rightarrow> string \<Rightarrow> int \<Rightarrow> exn + similar_redacao list" where
  "get_similar_redacoes self d texto limit =
     (case vector_search self d texto limit of
        Inl e \<Rightarrow> Inl e
      | Inr similar_embeddings \<Rightarrow> Inr (join_hits d similar_embeddings))"



record exemplo =
  ex_id :: nat
  ex_titulo :: string
  ex_nivel_qualidade :: real
  ex_temas :: "string list"

record rag_context =
  redacoes_similares :: "similar_redacao list"
  exemplos_alta_qualidade :: "exemplo list"
  recomendacoes_contextuais :: "json list"




section \<open>Well-formed stores\<close>



text \<open>The stored vectors the exhaustive scan can score against a query of dimension \<open>n\<close>.\<close>




section \<open>The scoring agent (ia\_agent.py)\<close>

text \<open>
  The scoring provider. The requests ask for \<open>response_format = json_object\<close>: the
  content of an answer is either not JSON at all (\<open>Malformed\<close>, on which \<open>json.loads\<close>
  raises JSONDecodeError) or a JSON object. The provider is unreliable and answers
  differently from call to call: \<open>chat n\<close> is the outcome of the call number \<open>n\<close>,
  counted from 0, an exception or an answer.
\<close>

datatype reply = Malformed | Parsed dict

type_synonym chat = "nat \<Rightarrow> exn + reply"

text \<open>
  What a run does to the outside is recorded in a trace: the attempts the retry wrapper
  starts for a function, the requests to the provider (one event for each time the
  request expression is evaluated, whether it answers or raises) and the waits between
  attempts.
\<close>

datatype event = Attempt string | ProviderCall | Sleep nat

type_synonym trace = "event list"

definition provider_calls :: "trace \<Rightarrow> nat" where
  "provider_calls tr = count_list tr ProviderCall"

definition acreate :: "chat \<Rightarrow> trace \<Rightarrow> (exn + reply) \<times> trace" where
  "acreate ch tr = (ch (provider_calls tr), tr @ [ProviderCall])"

text \<open>
  The decorator \<open>retry(wait=wait_exponential(min, max), stop=stop_after_attempt(n))\<close> of
  the tenacity library. The wait after the attempt number \<open>a\<close> (counted from 1) is
  \<open>2 ^ (a - 1)\<close>, kept between \<open>min\<close> and \<open>max\<close>. An attempt that returns ends the loop;
  one that raises is followed by a wait and the next attempt, until the last allowed
  attempt has raised, when RetryError is raised.
\<close>

definition wait_exponential :: "nat \<Rightarrow> nat \<Rightarrow> nat \<Rightarrow> nat" where
  "wait_exponential mn mx attempt_number = max mn (min (2 ^ (attempt_number - 1)) mx)"

fun retry_from ::
  "string \<Rightarrow> nat \<Rightarrow> nat \<Rightarrow> nat \<Rightarrow> nat \<Rightarrow> (trace \<Rightarrow> (exn + 'a) \<times> trace) \<Rightarrow> trace
     \<Rightarrow> (exn + 'a) \<times> trace" where
  "retry_from name mn mx attempt_number 0 body tr =
     (case body (tr @ [Attempt name]) of
        (Inr r, tr') \<Rightarrow> (Inr r, tr')
      | (Inl e, tr') \<Rightarrow> (Inl RetryError, tr'))"
| "retry_from name mn mx attempt_number (Suc remaining) body tr =
     (case body (tr @ [Attempt name]) of
        (Inr r, tr') \<Rightarrow> (Inr r, tr')
      | (Inl e, tr') \<Rightarrow>
          retry_from name mn mx (Suc attempt_number) remaining body
            (tr' @ [Sleep (wait_exponential mn mx attempt_number)]))"

definition retry ::
  "string \<Rightarrow> nat \<Rightarrow> nat \<Rightarrow> nat \<Rightarrow> (trace \<Rightarrow> (exn + 'a) \<times> trace) \<Rightarrow> trace
     \<Rightarrow> (exn + 'a) \<times> trace" where
  "retry name mn mx stop_after_attempt body = retry_from name mn mx 1 (stop_after_attempt - 1) body"

text \<open>
  The body of \<open>analyze_text\<close>. The text is cut to 14000 characters for the prompt. Every
  exception of the request is caught and turned into a dictionary with the key
  \<open>error\<close>, and so is the JSONDecodeError of a malformed answer: the body never raises.
\<close>

definition analyze_text_body :: "chat \<Rightarrow> string \<Rightarrow> trace \<Rightarrow> (exn + dict) \<times> trace" where
  "analyze_text_body ch text tr =
     (let text = (if 14000 < length text then take 14000 text @ ''...'' else text)
      in case acreate ch tr of
           (Inl e, tr') \<Rightarrow> (Inr [(''error'', JStr ''Falha na analise'')], tr')
         | (Inr Malformed, tr') \<Rightarrow>
             (Inr [(''error'', JStr ''Resposta da IA nao esta em formato JSON valido'')], tr')
         | (Inr (Parsed analysis), tr') \<Rightarrow> (Inr analysis, tr'))"

definition analyze_text :: "chat \<Rightarrow> string \<Rightarrow> trace \<Rightarrow> (exn + dict) \<times> trace" where
  "analyze_text ch text = retry ''analyze_text'' 1 60 3 (analyze_text_body ch text)"

text \<open>
  \<open>process_document\<close>. \<open>extracted\<close> is the outcome of reading the file and extracting its
  text, an exception or the text. The result is a dictionary with the key \<open>error\<close>, or one
  with the extract and the analysis. The whole body is inside \<open>try\<close>.
\<close>

datatype doc_result = DocError | DocSuccess string dict

definition process_document_body ::
  "chat \<Rightarrow> exn + string \<Rightarrow> trace \<Rightarrow> (exn + doc_result) \<times> trace" where
  "process_document_body ch extracted tr =
     (case extracted of
        Inl e \<Rightarrow> (Inr DocError, tr)
      | Inr text \<Rightarrow>
          if text = [] then (Inr DocError, tr)
          else (case analyze_text ch text tr of
                  (Inl e, tr') \<Rightarrow> (Inr DocError, tr')
                | (Inr analysis_result, tr') \<Rightarrow>
                    (Inr (DocSuccess
                            (if 300 < length text then take 300 text @ ''...'' else text)
                            analysis_result), tr')))"

definition process_document ::
  "chat \<Rightarrow> exn + string \<Rightarrow> trace \<Rightarrow> (exn + doc_result) \<times> trace" where
  "process_document ch extracted =
     retry ''process_document'' 1 60 5 (process_document_body ch extracted)"

text \<open>
  The search for a list in an answer that has neither of the expected keys: the first
  value that is a non-empty list.
\<close>

fun first_list :: "dict \<Rightarrow> json list option" where
  "first_list [] = None"
| "first_list ((key, JList (v # vs)) # items) = Some (v # vs)"
| "first_list ((key, value) # items) = first_list items"

text \<open>
  \<open>extract_key_points\<close> has no retry decorator. One request is made; any exception, of
  the request or of \<open>json.loads\<close>, gives the empty list.
\<close>

definition extract_key_points :: "chat \<Rightarrow> string \<Rightarrow> int \<Rightarrow> trace \<Rightarrow> json \<times> trace" where
  "extract_key_points ch text max_points tr =
     (case acreate ch tr of
        (Inl e, tr') \<Rightarrow> (JList [], tr')
      | (Inr Malformed, tr') \<Rightarrow> (JList [], tr')
      | (Inr (Parsed result), tr') \<Rightarrow>
          (case map_of result ''pontos'' of
             Some v \<Rightarrow> (v, tr')
           | None \<Rightarrow>
               (case map_of result ''points'' of
                  Some v \<Rightarrow> (v, tr')
                | None \<Rightarrow>
                    (case first_list result of
                       Some vs \<Rightarrow> (JList (slice_to vs max_points), tr')
                     | None \<Rightarrow> (JList [], tr')))))"

text \<open>
  The weak points that \<open>generate_improvement_suggestions\<close> collects from the analysis:
  the competencies whose \<open>nota\<close> is below 7. The comparison of a string, a list, a
  dictionary or null with a float raises TypeError, \<open>get\<close> on a value that is no dictionary
  raises AttributeError, and a competency below 7 without the key \<open>competencia\<close> raises
  KeyError. The model keeps the competencies, not the sentences formatted from them.
\<close>

definition nota_below_7 :: "dict \<Rightarrow> exn + bool" where
  "nota_below_7 competencia =
     (case map_of competencia ''nota'' of
        None \<Rightarrow> Inr False
      | Some (JNum x) \<Rightarrow> Inr (x < 7)
      | Some (JBool b) \<Rightarrow> Inr True
      | Some other \<Rightarrow> Inl TypeError)"

fun weak_points_loop :: "json list \<Rightarrow> exn + dict list" where
  "weak_points_loop [] = Inr []"
| "weak_points_loop (JObj competencia # rest) =
     (case nota_below_7 competencia of
        Inl e \<Rightarrow> Inl e
      | Inr False \<Rightarrow> weak_points_loop rest
      | Inr True \<Rightarrow>
          (case map_of competencia ''competencia'' of
             None \<Rightarrow> Inl KeyError
           | Some c \<Rightarrow>
               (case weak_points_loop rest of
                  Inl e \<Rightarrow> Inl e
                | Inr ws \<Rightarrow> Inr (competencia # ws))))"
| "weak_points_loop (other # rest) = Inl AttributeError"

definition weak_points :: "dict \<Rightarrow> exn + dict list" where
  "weak_points analysis =
     (case map_of analysis ''notas'' of
        None \<Rightarrow> Inr []
      | Some (JList items) \<Rightarrow> weak_points_loop items
      | Some (JStr s) \<Rightarrow> (if s = [] then Inr [] else Inl AttributeError)
      | Some (JObj kvs) \<Rightarrow> (if kvs = [] then Inr [] else Inl AttributeError)
      | Some other \<Rightarrow> Inl TypeError)"

text \<open>\<open>generate_improvement_suggestions\<close> has no retry decorator either.\<close>

definition generate_improvement_suggestions ::
  "chat \<Rightarrow> string \<Rightarrow> dict \<Rightarrow> trace \<Rightarrow> json \<times> trace" where
  "generate_improvement_suggestions ch text analysis tr =
     (case weak_points analysis of
        Inl e \<Rightarrow> (JList [], tr)
      | Inr ws \<Rightarrow>
          (case acreate ch tr of
             (Inl e, tr') \<Rightarrow> (JList [], tr')
           | (Inr Malformed, tr') \<Rightarrow> (JList [], tr')
           | (Inr (Parsed result), tr') \<Rightarrow>
               (case map_of result ''sugestoes'' of
                  Some v \<Rightarrow> (v, tr')
                | None \<Rightarrow>
                    (case map_of result ''suggestions'' of
                       Some v \<Rightarrow> (v, tr')
                     | None \<Rightarrow>
                         (case first_list result of
                            Some vs \<Rightarrow> (JList vs, tr')
                          | None \<Rightarrow> (JList [], tr'))))))"

section \<open>The repositories (repositories.py)\<close>

text \<open>
  The dictionary given to \<open>$set\<close> on a document of \<open>redacoes\<close>: the fields it names are
  overwritten, the others are kept.
\<close>

record redacao_update =
  upd_status :: "string option"
  upd_data_conclusao :: "nat option"
  upd_mensagem_erro :: "string option"
  upd_analise_disponivel :: "bool option"

definition no_update :: redacao_update where
  "no_update = \<lparr>upd_status = None, upd_data_conclusao = None, upd_mensagem_erro = None,
                upd_analise_disponivel = None\<rparr>"

definition apply_update :: "redacao_update \<Rightarrow> redacao_doc \<Rightarrow> redacao_doc" where
  "apply_update u r =
     r\<lparr>red_status := (case upd_status u of None \<Rightarrow> red_status r | Some s \<Rightarrow> Some s),
       red_data_conclusao :=
         (case upd_data_conclusao u of None \<Rightarrow> red_data_conclusao r | Some t \<Rightarrow> Some t),
       red_mensagem_erro :=
         (case upd_mensagem_erro u of None \<Rightarrow> red_mensagem_erro r | Some m \<Rightarrow> Some m),
       red_analise_disponivel :=
         (case upd_analise_disponivel u of
            None \<Rightarrow> red_analise_disponivel r | Some b \<Rightarrow> Some b)\<rparr>"

text \<open>
  \<open>BaseRepository.update_one\<close> on the collection \<open>redacoes\<close>. Every exception, the
  InvalidId of a malformed id included, is caught and gives False; otherwise the result
  tells whether a document was modified.
\<close>

definition update_one :: "string \<Rightarrow> redacao_update \<Rightarrow> db \<Rightarrow> bool \<times> db" where
  "update_one ident update_data d =
     (case ObjectId ident of
        Inl e \<Rightarrow> (False, d)
      | Inr oid \<Rightarrow>
          (case guard_op d UpdateOneRedacao
                  (update_first (\<lambda>r. red_id r = oid) (apply_update update_data)
                     (db_redacoes d)) of
             Inl e \<Rightarrow> (False, d)
           | Inr docs \<Rightarrow> (docs \<noteq> db_redacoes d, d\<lparr>db_redacoes := docs\<rparr>)))"

text \<open>
  \<open>RedacaoRepository.update_status\<close>, with \<open>now\<close> the value of \<open>datetime.now()\<close>. No
  function of the source calls it.
\<close>

definition update_status :: "nat \<Rightarrow> string \<Rightarrow> string \<Rightarrow> db \<Rightarrow> bool \<times> db" where
  "update_status now redacao_id status d =
     update_one redacao_id
       (no_update\<lparr>upd_status := Some status,
                  upd_data_conclusao := (if status = ''concluida'' then Some now else None)\<rparr>) d"

text \<open>
  \<open>AnaliseRepository.find_by_redacao\<close>: \<open>find_one\<close> catches the exceptions of the store,
  but the ObjectId is built before \<open>find_one\<close> is entered.
\<close>

definition find_one_analise :: "nat \<Rightarrow> db \<Rightarrow> analise_doc option" where
  "find_one_analise oid d =
     (case guard_op d (FindOneAnalise oid)
             (find (\<lambda>a. ana_redacao_id a = Some oid) (db_analises d)) of
        Inl e \<Rightarrow> None
      | Inr r \<Rightarrow> r)"

definition find_by_redacao :: "string \<Rightarrow> db \<Rightarrow> exn + analise_doc option" where
  "find_by_redacao redacao_id d =
     (case ObjectId redacao_id of
        Inl e \<Rightarrow> Inl e
      | Inr oid \<Rightarrow> Inr (find_one_analise oid d))"

section \<open>Names and attributes\<close>

text \<open>
  The attributes of the objects that main.py uses, as the classes define them: the
  methods and the fields set by the constructors. No class defines \<open>__getattr__\<close>, and
  the attributes that every Python object has are none of the names looked up below.
\<close>

definition BaseRepository_attrs :: "string list" where
  "BaseRepository_attrs =
     [''db'', ''collection'', ''find_by_id'', ''find_one'', ''find_many'', ''insert_one'',
      ''update_one'', ''delete_one'', ''count'']"

definition RedacaoRepository_attrs :: "string list" where
  "RedacaoRepository_attrs =
     BaseRepository_attrs @ [''find_by_user'', ''update_status'', ''find_pendentes'']"

definition AnaliseRepository_attrs :: "string list" where
  "AnaliseRepository_attrs = BaseRepository_attrs @ [''find_by_redacao'', ''find_by_user'']"

definition EmbeddingRepository_attrs :: "string list" where
  "EmbeddingRepository_attrs = BaseRepository_attrs @ [''find_by_redacao'']"

definition RAGManager_attrs :: "string list" where
  "RAGManager_attrs =
     [''db'', ''openai_client'', ''has_vector_search'', ''_check_vector_search'',
      ''generate_embedding'', ''store_redacao_embedding'', ''vector_search'',
      ''_cosine_similarity'', ''get_similar_redacoes'', ''enrich_with_rag'',
      ''_gerar_recomendacoes_contextuais'']"

text \<open>
  The names bound in the module main.py: those it imports, those it assigns and the
  functions it defines.
\<close>

definition main_globals :: "string list" where
  "main_globals =
     [''FastAPI'', ''UploadFile'', ''File'', ''HTTPException'', ''Form'', ''Depends'',
      ''BackgroundTasks'', ''CORSMiddleware'', ''JSONResponse'', ''uvicorn'', ''os'',
      ''asyncio'', ''json'', ''uuid'', ''datetime'', ''Path'', ''Optional'', ''List'',
      ''Dict'', ''Any'', ''spacy'', ''ObjectId'', ''TextProcessor'', ''RedacaoAnalyzer'',
      ''file_processor'', ''ia_agent'', ''RedacaoInput'', ''RedacaoAnalise'', ''Correcao'',
      ''redacao_repository'', ''analise_repository'', ''user_repository'', ''rag_manager'',
      ''tempfile'', ''app'', ''text_processor'', ''analyzer'', ''read_root'',
      ''analisar_redacao'', ''get_exemplos'', ''get_exemplo'', ''processar_redacao_async'',
      ''verificar_status_redacao'', ''obter_analise_redacao'']"

section \<open>The pipeline (main.py, processar\_redacao\_async)\<close>

text \<open>
  The state a run acts on is the store and the trace of the scoring agent. An action
  returns a value or raises, and leaves a new state.
\<close>

record world =
  w_db :: db
  w_trace :: trace

type_synonym 'a action = "world \<Rightarrow> (exn + 'a) \<times> world"

definition ret :: "'a \<Rightarrow> 'a action" where
  "ret x w = (Inr x, w)"

definition raise :: "exn \<Rightarrow> 'a action" where
  "raise e w = (Inl e, w)"

definition bnd :: "'a action \<Rightarrow> ('a \<Rightarrow> 'b action) \<Rightarrow> 'b action" where
  "bnd m f w = (case m w of (Inl e, w') \<Rightarrow> (Inl e, w') | (Inr x, w') \<Rightarrow> f x w')"

definition try_except :: "'a action \<Rightarrow> (exn \<Rightarrow> 'a action) \<Rightarrow> 'a action" where
  "try_except m handler w =
     (case m w of (Inl e, w') \<Rightarrow> handler e w' | (Inr x, w') \<Rightarrow> (Inr x, w'))"

text \<open>
  Reading a global name that the module does not bind raises NameError, and reading an
  attribute that the object does not have raises AttributeError; the call written after
  it is then not made.
\<close>

definition load_global :: "string \<Rightarrow> 'a action \<Rightarrow> 'a action" where
  "load_global name m = (if name \<in> set main_globals then m else raise NameError)"

definition load_attr :: "string list \<Rightarrow> string \<Rightarrow> 'a action \<Rightarrow> 'a action" where
  "load_attr attrs name m = (if name \<in> set attrs then m else raise AttributeError)"

definition on_trace :: "(trace \<Rightarrow> 'a \<times> trace) \<Rightarrow> world \<Rightarrow> 'a \<times> world" where
  "on_trace f w = (case f (w_trace w) of (x, tr) \<Rightarrow> (x, w\<lparr>w_trace := tr\<rparr>))"

text \<open>
  An identifier as a document may hold it: an ObjectId or a string. The two are never
  equal to one another, and both are truthy, the empty string apart.
\<close>

datatype ident = IdObj nat | IdStr string

record similar_hit =
  sh_id :: "ident option"

record contexto =
  ctx_nota :: real
  ctx_resumo :: string
  ctx_pontos_fortes :: "string list"

text \<open>The dictionary \<open>analise\<close> that the pipeline builds and hands over for saving.\<close>

record analise =
  an_redacao_id :: string
  an_titulo :: string
  an_nota_geral :: json
  an_resumo_executivo :: json
  an_notas :: json
  an_problemas_gramaticais :: json
  an_recomendacoes :: json
  an_pontos_fortes :: json
  an_contexto_adicional :: "contexto list"

text \<open>
  main.py calls five things that nothing in the repository defines: the methods
  \<open>update\<close> of the essay repository, \<open>create\<close> of the analysis repository and
  \<open>find_similar_redacoes\<close> of the retrieval manager, and the names \<open>logger\<close> and
  \<open>embedding_repository\<close>, which the module neither imports nor assigns. What such a call
  would do, were the name bound, is a parameter of the model: nothing is assumed of it.
\<close>

record unbound =
  ub_update :: "string \<Rightarrow> redacao_update \<Rightarrow> unit action"
  ub_embedding_create :: "string \<Rightarrow> real list \<Rightarrow> string \<Rightarrow> unit action"
  ub_find_similar_redacoes :: "real list \<Rightarrow> int \<Rightarrow> similar_hit list action"
  ub_analise_create :: "analise \<Rightarrow> unit action"
  ub_logger :: "unit action"

text \<open>
  What the run is given besides the store: the retrieval manager, the scoring provider,
  and for a path the outcome of reading the file and extracting its text (None when
  \<open>os.path.exists\<close> is false).
\<close>

record services =
  sv_rag :: rag_manager
  sv_chat :: chat
  sv_file :: "string \<Rightarrow> (exn + string) option"

definition redacao_repository_update ::
  "unbound \<Rightarrow> string \<Rightarrow> redacao_update \<Rightarrow> unit action" where
  "redacao_repository_update E redacao_id u =
     load_global ''redacao_repository''
       (load_attr RedacaoRepository_attrs ''update'' (ub_update E redacao_id u))"

definition logger_call :: "unbound \<Rightarrow> unit action" where
  "logger_call E = load_global ''logger'' (ub_logger E)"

text \<open>
  \<open>embedding = await rag_manager.generate_embedding(texto)\<close>: the method is an ordinary
  function, so the call is made first and may raise; its result, a list, is then awaited,
  which raises TypeError. The handler logs and sets \<open>embedding\<close> to None.
\<close>

definition await_list :: "exn + real list \<Rightarrow> exn + real list" where
  "await_list r = (case r of Inl e \<Rightarrow> Inl e | Inr v \<Rightarrow> Inl TypeError)"

definition gerar_embedding :: "unbound \<Rightarrow> services \<Rightarrow> string \<Rightarrow> real list option action" where
  "gerar_embedding E sv texto =
     try_except
       (bnd (load_global ''rag_manager''
               (load_attr RAGManager_attrs ''generate_embedding''
                  (\<lambda>w. (await_list (generate_embedding (sv_rag sv) texto), w))))
            (\<lambda>embedding. ret (Some embedding)))
       (\<lambda>e. bnd (logger_call E) (\<lambda>u. ret None))"

text \<open>
  The loop that builds \<open>contexto_adicional\<close>: a hit is used when its \<open>_id\<close> is truthy and
  differs from \<open>redacao_id\<close>, a string. The id is turned into a string and back into an
  ObjectId for the lookup, which raises InvalidId when it was a string of another form.
\<close>

definition outra_redacao :: "ident option \<Rightarrow> string \<Rightarrow> bool" where
  "outra_redacao similar_id redacao_id =
     (case similar_id of
        None \<Rightarrow> False
      | Some (IdObj n) \<Rightarrow> True
      | Some (IdStr s) \<Rightarrow> s \<noteq> [] \<and> s \<noteq> redacao_id)"

definition find_analise_similar :: "ident option \<Rightarrow> db \<Rightarrow> exn + analise_doc option" where
  "find_analise_similar similar_id d =
     (case similar_id of
        None \<Rightarrow> find_by_redacao ''None'' d
      | Some (IdObj n) \<Rightarrow> Inr (find_one_analise n d)
      | Some (IdStr s) \<Rightarrow> find_by_redacao s d)"

fun contexto_loop :: "string \<Rightarrow> similar_hit list \<Rightarrow> db \<Rightarrow> exn + contexto list" where
  "contexto_loop redacao_id [] d = Inr []"
| "contexto_loop redacao_id (redacao_similar # rest) d =
     (if outra_redacao (sh_id redacao_similar) redacao_id
      then (case find_analise_similar (sh_id redacao_similar) d of
              Inl e \<Rightarrow> Inl e
            | Inr None \<Rightarrow> contexto_loop redacao_id rest d
            | Inr (Some analise_similar) \<Rightarrow>
                (case contexto_loop redacao_id rest d of
                   Inl e \<Rightarrow> Inl e
                 | Inr cs \<Rightarrow>
                     Inr (\<lparr>ctx_nota = (case ana_nota_geral analise_similar of
                                         None \<Rightarrow> 0 | Some n \<Rightarrow> n),
                           ctx_resumo = (case ana_resumo_executivo analise_similar of
                                           None \<Rightarrow> [] | Some t \<Rightarrow> t),
                           ctx_pontos_fortes = (case ana_pontos_fortes analise_similar of
                                                  None \<Rightarrow> [] | Some ps \<Rightarrow> ps)\<rparr> # cs)))
      else contexto_loop redacao_id rest d)"

text \<open>
  The block under \<open>if embedding\<close>. Its result is the value of the local variable
  \<open>contexto_adicional\<close>, which is assigned inside the block only: None stands for the
  variable left unbound when the block is skipped.
\<close>

definition salvar_e_buscar ::
  "unbound \<Rightarrow> string \<Rightarrow> string \<Rightarrow> real list option \<Rightarrow> contexto list option action" where
  "salvar_e_buscar E redacao_id texto embedding =
     (case embedding of
        None \<Rightarrow> ret None
      | Some v \<Rightarrow>
          if v = [] then ret None
          else bnd (load_global ''embedding_repository''
                      (load_attr EmbeddingRepository_attrs ''create''
                         (ub_embedding_create E redacao_id v (take 200 texto))))
                 (\<lambda>u. bnd (load_global ''rag_manager''
                              (load_attr RAGManager_attrs ''find_similar_redacoes''
                                 (ub_find_similar_redacoes E v 3)))
                 (\<lambda>redacoes_similares. bnd (\<lambda>w. (contexto_loop redacao_id redacoes_similares (w_db w), w))
                 (\<lambda>contexto_adicional. ret (Some contexto_adicional)))))"

text \<open>
  The analysis by the agent: on the saved file when there is one, with the extracted
  text as the fallback; a result with the key \<open>error\<close> is replaced by the empty
  dictionary.
\<close>

definition analisar_com_agente ::
  "unbound \<Rightarrow> services \<Rightarrow> string \<Rightarrow> string option \<Rightarrow> dict action" where
  "analisar_com_agente E sv texto file_path =
     bnd (case (case file_path of None \<Rightarrow> None
                                | Some p \<Rightarrow> if p = [] then None else sv_file sv p) of
            Some extracted \<Rightarrow>
              bnd (logger_call E)
                (\<lambda>u. bnd (on_trace (process_document (sv_chat sv) extracted))
                (\<lambda>doc_result.
                   case doc_result of
                     DocSuccess text_extracted analysis \<Rightarrow>
                       if analysis \<noteq> [] then ret analysis
                       else bnd (logger_call E)
                              (\<lambda>u. on_trace (analyze_text (sv_chat sv) texto))
                   | DocError \<Rightarrow>
                       bnd (logger_call E)
                         (\<lambda>u. on_trace (analyze_text (sv_chat sv) texto))))
          | None \<Rightarrow>
              bnd (logger_call E) (\<lambda>u. on_trace (analyze_text (sv_chat sv) texto)))
       (\<lambda>analysis_result.
          if map_of analysis_result ''error'' \<noteq> None
          then bnd (logger_call E) (\<lambda>u. ret [])
          else ret analysis_result)"

text \<open>The rubric used when the analysis has no \<open>notas\<close>: five competencies.\<close>

definition nota_padrao :: "string \<Rightarrow> real \<Rightarrow> string \<Rightarrow> json" where
  "nota_padrao competencia nota justificativa =
     JObj [(''competencia'', JStr competencia), (''nota'', JNum nota),
           (''justificativa'', JStr justificativa)]"

definition notas_padrao :: json where
  "notas_padrao =
     JList [nota_padrao ''Dominio da norma culta'' (13 / 2)
              ''Apresenta alguns erros de pontuacao e concordancia.'',
            nota_padrao ''Compreensao da proposta'' 8
              ''Boa compreensao do tema, com desenvolvimento adequado.'',
            nota_padrao ''Argumentacao'' 7
              ''Argumentos consistentes, mas poderiam ser mais desenvolvidos.'',
            nota_padrao ''Coesao textual'' (15 / 2)
              ''Uso adequado de elementos coesivos, com algumas falhas.'',
            nota_padrao ''Proposta de intervencao'' 6
              ''Proposta pouco desenvolvida e sem detalhamento dos agentes.'']"

definition montar_analise ::
  "string \<Rightarrow> string option \<Rightarrow> dict \<Rightarrow> json \<Rightarrow> json \<Rightarrow> contexto list \<Rightarrow> analise" where
  "montar_analise redacao_id titulo analysis_result sugestoes pontos_chave contexto_adicional =
     \<lparr>an_redacao_id = redacao_id,
      an_titulo = (case titulo of None \<Rightarrow> ''Redacao sem titulo''
                   | Some t \<Rightarrow> if t = [] then ''Redacao sem titulo'' else t),
      an_nota_geral = dict_get analysis_result ''nota_geral'' (JNum 7),
      an_resumo_executivo =
        dict_get analysis_result ''resumo_executivo'' (JStr ''Analise nao disponivel''),
      an_notas = dict_get analysis_result ''notas'' notas_padrao,
      an_problemas_gramaticais = dict_get analysis_result ''problemas_gramaticais'' (JList []),
      an_recomendacoes = dict_get analysis_result ''recomendacoes'' sugestoes,
      an_pontos_fortes = dict_get analysis_result ''pontos_fortes'' pontos_chave,
      an_contexto_adicional = contexto_adicional\<rparr>"

definition mensagem_texto_curto :: string where
  "mensagem_texto_curto =
     ''Texto muito curto para analise detalhada. Minimo de 50 caracteres requerido.''"

text \<open>
  The body of the \<open>try\<close>. Reading \<open>contexto_adicional\<close> while it is unbound raises
  UnboundLocalError, when the dictionary \<open>analise\<close> is built.
\<close>

definition processar_corpo ::
  "unbound \<Rightarrow> services \<Rightarrow> string \<Rightarrow> string \<Rightarrow> string option \<Rightarrow> string \<Rightarrow> string option
     \<Rightarrow> unit action" where
  "processar_corpo E sv redacao_id texto titulo usuario_id file_path =
     bnd (redacao_repository_update E redacao_id (no_update\<lparr>upd_status := Some ''processando''\<rparr>))
     (\<lambda>u.
       if length texto < 50
       then redacao_repository_update E redacao_id
              (no_update\<lparr>upd_status := Some ''erro'',
                         upd_mensagem_erro := Some mensagem_texto_curto\<rparr>)
       else
         bnd (gerar_embedding E sv texto)
         (\<lambda>embedding. bnd (salvar_e_buscar E redacao_id texto embedding)
         (\<lambda>contexto_adicional. bnd (logger_call E)
         (\<lambda>u. bnd (analisar_com_agente E sv texto file_path)
         (\<lambda>analysis_result.
            bnd (if analysis_result \<noteq> []
                 then on_trace (\<lambda>tr. case generate_improvement_suggestions (sv_chat sv) texto
                                            analysis_result tr of (x, tr') \<Rightarrow> (Inr x, tr'))
                 else ret (JList []))
         (\<lambda>sugestoes.
            bnd (if texto \<noteq> []
                 then on_trace (\<lambda>tr. case extract_key_points (sv_chat sv) texto 5 tr of
                                        (x, tr') \<Rightarrow> (Inr x, tr'))
                 else ret (JList []))
         (\<lambda>pontos_chave.
            bnd (case contexto_adicional of
                   None \<Rightarrow> raise UnboundLocalError
                 | Some c \<Rightarrow> ret c)
         (\<lambda>contexto.
            bnd (load_global ''analise_repository''
                   (load_attr AnaliseRepository_attrs ''create''
                      (ub_analise_create E
                         (montar_analise redacao_id titulo analysis_result sugestoes
                            pontos_chave contexto))))
         (\<lambda>u. redacao_repository_update E redacao_id
                 (no_update\<lparr>upd_status := Some ''concluida'',
                            upd_analise_disponivel := Some True\<rparr>))))))))))"

text \<open>
  The function: an exception of the body is handled by logging it and by asking for the
  status \<open>erro\<close>; an exception of the handler itself leaves the function.
\<close>

definition processar_redacao_async ::
  "unbound \<Rightarrow> services \<Rightarrow> string \<Rightarrow> string \<Rightarrow> string option \<Rightarrow> string \<Rightarrow> string option
     \<Rightarrow> unit action" where
  "processar_redacao_async E sv redacao_id texto titulo usuario_id file_path =
     try_except (processar_corpo E sv redacao_id texto titulo usuario_id file_path)
       (\<lambda>e. bnd (logger_call E)
               (\<lambda>u. redacao_repository_update E redacao_id
                       (no_update\<lparr>upd_status := Some ''erro'',
                                  upd_mensagem_erro := Some ''Erro ao processar redacao''\<rparr>)))"




section \<open>Example stores and providers\<close>

text \<open>Small concrete values, used where a statement is instantiated and evaluated.\<close>

definition empty_db :: db where
  "empty_db = \<lparr>db_embeddings = [], db_redacoes = [], db_analises = [],
               db_corpus_exemplos = [], db_next_id = 0, db_raises = (\<lambda>opn. False),
               db_vector_search = (\<lambda>q limit. [])\<rparr>"

text \<open>A manager whose provider answers every text with the one-dimensional vector \<open>[x]\<close>.\<close>

definition constant_manager :: "real \<Rightarrow> rag_manager" where
  "constant_manager x = \<lparr>openai_client = Some (\<lambda>s. Inr [[x]]), has_vector_search = False\<rparr>"

text \<open>A store holding one essay, its embedding and no analysis.\<close>

definition one_essay_db :: db where
  "one_essay_db =
     empty_db\<lparr>db_embeddings :=
                 [\<lparr>emb_id = 7, emb_redacao_id = Some 1, emb_titulo = None,
                   emb_texto_snippet = Some ''essay'', emb_vector_embedding = Some [1],
                   emb_data_criacao = None\<rparr>],
               db_redacoes :=
                 [\<lparr>red_id = 1, red_titulo = Some ''T'', red_status = Some ''processando'',
                   red_data_conclusao = None, red_texto_extraido = Some ''essay'',
                   red_mensagem_erro = None, red_analise_disponivel = None\<rparr>],
               db_next_id := 8\<rparr>"





definition malformed_chat :: chat where
  "malformed_chat n = Inr Malformed"


section \<open>Lemmas on lists and on the store\<close>









section \<open>Cosine similarity and the exhaustive scan\<close>


text \<open>
  Claim C10, as amended. For two vectors of the same length, the cosine similarity
  raises nothing: in particular the division is never reached with a zero divisor, and the
  result is exactly 0 when one of the two norms is zero. (For vectors of different
  lengths the dot product raises before the norms are looked at.)
\<close>

theorem cosine_similarity_zero_norm:
  assumes "length vec1 = length vec2"
  shows "(np_linalg_norm vec1 = 0 \<or> np_linalg_norm vec2 = 0
            \<longrightarrow> cosine_similarity vec1 vec2 = Inr 0)
         \<and> (\<exists>s. cosine_similarity vec1 vec2 = Inr s)"
  using assms by (simp add: cosine_similarity_def np_dot_def Let_def true_divide_def)

theorem cosine_similarity_zero_norm_witness:
  "length [0::real, 0] = length [3::real, 4] \<and> np_linalg_norm [0, 0] = 0
   \<and> cosine_similarity [0, 0] [3, 4] = Inr 0"
proof -
  have l: "length [0::real, 0] = length [3::real, 4]" by simp
  have n: "np_linalg_norm [0, 0] = 0" by (simp add: np_linalg_norm_def)
  from cosine_similarity_zero_norm [OF l] n show ?thesis by simp
qed

text \<open>
  The claim as stated, for every pair of vectors, fails where the lengths differ: the
  first vector has norm zero and the call raises ValueError.
\<close>

theorem cosine_similarity_zero_norm_counterexample:
  "np_linalg_norm [0] = 0 \<and> cosine_similarity [0] [1, 2] = Inl ValueError"
  by (simp add: np_linalg_norm_def cosine_similarity_def np_dot_def)









section \<open>Embedding generation\<close>

text \<open>
  Claim C7. With a configured client, \<open>generate_embedding\<close> hands the provider the first
  8000 characters of the text and nothing else: a provider that differs only on longer
  inputs gives the same result, and the result is the first embedding of the provider's
  answer to those 8000 characters. When the provider raises on that input, or answers
  with no embedding, the result is the vector of 1536 zeros, and in every case the call
  returns a vector and raises nothing.
\<close>

theorem generate_embedding_truncates_and_falls_back:
  assumes "openai_client self = Some create"
  shows "((\<forall>s. length s \<le> 8000 \<longrightarrow> create' s = create s) \<longrightarrow>
            generate_embedding (self\<lparr>openai_client := Some create'\<rparr>) text
              = generate_embedding self text)
       \<and> (\<forall>e. create (take 8000 text) = Inl e \<longrightarrow>
            generate_embedding self text = Inr (replicate 1536 0)
            \<and> length (replicate 1536 (0::real)) = 1536)
       \<and> (\<exists>v. generate_embedding self text = Inr v)
       \<and> (\<forall>v rest. create (take 8000 text) = Inr (v # rest) \<longrightarrow>
            generate_embedding self text = Inr v)
       \<and> (create (take 8000 text) = Inr [] \<longrightarrow>
            generate_embedding self text = Inr (replicate 1536 0))"
  using assms by (auto simp: generate_embedding_def split: sum.splits list.splits)

theorem generate_embedding_truncates_and_falls_back_witness:
  "openai_client \<lparr>openai_client = Some (\<lambda>s. Inl ProviderError), has_vector_search = False\<rparr>
     = Some (\<lambda>s. Inl ProviderError)
   \<and> generate_embedding
        \<lparr>openai_client = Some (\<lambda>s. if length s \<le> 8000 then Inl ProviderError else Inr [[1]]),
         has_vector_search = False\<rparr> ''uma redacao''
       = generate_embedding
           \<lparr>openai_client = Some (\<lambda>s. Inl ProviderError), has_vector_search = False\<rparr>
           ''uma redacao''
   \<and> generate_embedding
        \<lparr>openai_client = Some (\<lambda>s. Inl ProviderError), has_vector_search = False\<rparr>
        ''uma redacao'' = Inr (replicate 1536 0)
   \<and> openai_client
        \<lparr>openai_client = Some (\<lambda>s. Inr [map (\<lambda>c. 1) s, [0]]), has_vector_search = False\<rparr>
       = Some (\<lambda>s. Inr [map (\<lambda>c. 1) s, [0]])
   \<and> generate_embedding
        \<lparr>openai_client = Some (\<lambda>s. Inr [map (\<lambda>c. 1) s, [0]]), has_vector_search = False\<rparr>
        ''abc'' = Inr [1, 1, 1]"
proof -
  let ?self = "\<lparr>openai_client = Some (\<lambda>s::string. (Inl ProviderError :: exn + real list list)),
                has_vector_search = False\<rparr>"
  let ?good = "\<lparr>openai_client = Some (\<lambda>s::string. (Inr [map (\<lambda>c. 1) s, [0]] :: exn + real list list)),
                has_vector_search = False\<rparr>"
  have c: "openai_client ?self = Some (\<lambda>s. Inl ProviderError)" by simp
  have g: "openai_client ?good = Some (\<lambda>s. Inr [map (\<lambda>c. 1) s, [0]])" by simp
  have a: "\<forall>s::string. length s \<le> 8000 \<longrightarrow>
             (if length s \<le> 8000 then Inl ProviderError else Inr [[1::real]])
               = (Inl ProviderError :: exn + real list list)"
    by simp
  from generate_embedding_truncates_and_falls_back
         [OF c, of "\<lambda>s. if length s \<le> 8000 then Inl ProviderError else Inr [[1]]"
            "''uma redacao''"] a
       generate_embedding_truncates_and_falls_back [OF g, of _ "''abc''"]
  show ?thesis by simp
qed

section \<open>Storing embeddings\<close>






section \<open>Retrieval\<close>










lemma join_hits_ids:
  assumes "\<forall>r. \<not> db_raises d (FindOneRedacao r) \<and> \<not> db_raises d (FindOneAnalise r)"
  shows "map sr_id (join_hits d hs) =
         filter (\<lambda>r. r \<in> red_id ` set (db_redacoes d)) (List.map_filter hit_redacao_id hs)"
proof (induction hs)
  case Nil
  then show ?case by simp
next
  case (Cons h hs)
  show ?case
  proof (cases "hit_redacao_id h")
    case None
    with Cons show ?thesis by (simp add: join_hit_def)
  next
    case (Some r)
    show ?thesis
    proof (cases "find (\<lambda>x. red_id x = r) (db_redacoes d)")
      case None
      then have "r \<notin> red_id ` set (db_redacoes d)" by (auto simp: find_None_iff)
      with None Some Cons assms show ?thesis by (simp add: join_hit_def guard_op_def)
    next
      case found: (Some x)
      then have x: "red_id x = r" "x \<in> set (db_redacoes d)" by (auto simp: find_Some_iff)
      then have "r \<in> red_id ` set (db_redacoes d)" by auto
      with found Some Cons assms x(1) show ?thesis by (simp add: join_hit_def guard_op_def)
    qed
  qed
qed

text \<open>
  Claim C9, as amended. \<open>get_similar_redacoes\<close> takes no document to exclude and excludes
  none: when the lookups of the join succeed, its result has one entry for every hit of
  the similarity search whose \<open>redacao_id\<close> names a stored document, in the order of the
  hits, whichever document that is. The one exclusion in the source is in the loop of the
  pipeline that assembles the context: a hit whose \<open>_id\<close> is the string \<open>redacao_id\<close>
  adds nothing to it.
\<close>

theorem get_similar_redacoes_no_exclusion:
  assumes "vector_search self d texto limit = Inr hits"
    and "\<forall>r. \<not> db_raises d (FindOneRedacao r) \<and> \<not> db_raises d (FindOneAnalise r)"
    and "sh_id h = Some (IdStr redacao_id)"
  shows "(\<exists>rs. get_similar_redacoes self d texto limit = Inr rs
           \<and> map sr_id rs =
               filter (\<lambda>r. r \<in> red_id ` set (db_redacoes d))
                 (List.map_filter hit_redacao_id hits))
         \<and> contexto_loop redacao_id (h # rest) d = contexto_loop redacao_id rest d"
  using assms by (simp add: get_similar_redacoes_def join_hits_ids outra_redacao_def)

theorem get_similar_redacoes_no_exclusion_witness:
  "vector_search (constant_manager 1) one_essay_db ''essay'' 3
     = Inr [\<lparr>hit_id = 7, hit_redacao_id = Some 1, hit_titulo = None,
             hit_texto_snippet = Some ''essay'', hit_score = Some 1\<rparr>]
   \<and> (\<forall>r. \<not> db_raises one_essay_db (FindOneRedacao r)
          \<and> \<not> db_raises one_essay_db (FindOneAnalise r))
   \<and> sh_id \<lparr>sh_id = Some (IdStr ''000000000000000000000001'')\<rparr>
       = Some (IdStr ''000000000000000000000001'')
   \<and> (\<exists>rs. get_similar_redacoes (constant_manager 1) one_essay_db ''essay'' 3 = Inr rs
          \<and> map sr_id rs = [1])
   \<and> contexto_loop ''000000000000000000000001''
         [\<lparr>sh_id = Some (IdStr ''000000000000000000000001'')\<rparr>] one_essay_db = Inr []"
proof -
  have v: "vector_search (constant_manager 1) one_essay_db ''essay'' 3
     = Inr [\<lparr>hit_id = 7, hit_redacao_id = Some 1, hit_titulo = None,
             hit_texto_snippet = Some ''essay'', hit_score = Some 1\<rparr>]"
    by (simp add: vector_search_def generate_embedding_def constant_manager_def
        one_essay_db_def empty_db_def guard_op_def fallback_search_def slice_to_def
        cosine_similarity_def np_dot_def np_linalg_norm_def true_divide_def hit_of_def)
  have n: "\<forall>r. \<not> db_raises one_essay_db (FindOneRedacao r)
          \<and> \<not> db_raises one_essay_db (FindOneAnalise r)"
    by (simp add: one_essay_db_def empty_db_def)
  have h: "sh_id \<lparr>sh_id = Some (IdStr ''000000000000000000000001'')\<rparr>
       = Some (IdStr ''000000000000000000000001'')"
    by simp
  have "filter (\<lambda>r. r \<in> red_id ` set (db_redacoes one_essay_db))
          (List.map_filter hit_redacao_id
             [\<lparr>hit_id = 7, hit_redacao_id = Some 1, hit_titulo = None,
               hit_texto_snippet = Some ''essay'', hit_score = Some (1::real)\<rparr>]) = [1]"
    by (simp add: one_essay_db_def empty_db_def)
  with get_similar_redacoes_no_exclusion [OF v n h, of "[]"] v n show ?thesis by simp
qed

text \<open>
  The claim as stated fails on \<open>get_similar_redacoes\<close>: for the essay with id 1, whose
  embedding is stored, the search with the essay's own text returns the essay itself.
\<close>

theorem get_similar_redacoes_self_counterexample:
  "get_similar_redacoes (constant_manager 1) one_essay_db ''essay'' 3
   = Inr [\<lparr>sr_id = 1, sr_titulo = ''T'', sr_texto_snippet = ''essay'',
           sr_similarity_score = 1, sr_analise = None\<rparr>]"
  by (simp add: get_similar_redacoes_def vector_search_def generate_embedding_def
      constant_manager_def one_essay_db_def empty_db_def guard_op_def fallback_search_def
      slice_to_def cosine_similarity_def np_dot_def np_linalg_norm_def true_divide_def
      hit_of_def join_hit_def)

section \<open>The scoring agent\<close>





section \<open>The pipeline\<close>

text \<open>
  The class of the essay repository has no attribute \<open>update\<close>, and the module main.py
  binds no name \<open>logger\<close>.
\<close>

lemma redacao_repository_update_raises:
  "redacao_repository_update E redacao_id u = raise AttributeError"
  by (simp add: redacao_repository_update_def load_global_def load_attr_def main_globals_def
      RedacaoRepository_attrs_def BaseRepository_attrs_def)

lemma logger_call_raises: "logger_call E = raise NameError"
  by (simp add: logger_call_def load_global_def main_globals_def)

lemma processar_corpo_raises:
  "processar_corpo E sv redacao_id texto titulo usuario_id file_path w
     = (Inl AttributeError, w)"
  by (simp add: processar_corpo_def redacao_repository_update_raises bnd_def raise_def)

text \<open>
  Every run ends the same way, whatever the calls of the unbound names would do: the first
  statement of the body raises AttributeError, the handler raises NameError at its own
  first statement, and the state is the one the run started from.
\<close>

lemma processar_redacao_async_raises:
  "processar_redacao_async E sv redacao_id texto titulo usuario_id file_path w
     = (Inl NameError, w)"
  by (simp add: processar_redacao_async_def try_except_def processar_corpo_raises
      logger_call_raises bnd_def raise_def)



text \<open>
  Claim C5, on the code. With a text of 49 characters, and with one of 50, the body of the
  pipeline raises at its first statement, before the test of the length; the run leaves
  the function with an exception and the essay keeps the status \<open>processando\<close> it was
  created with, where the claim has the short text end in \<open>erro\<close> and the long one pass
  the guard.
\<close>

theorem length_guard_not_reached:
  "processar_redacao_async E sv ''000000000000000000000001'' (replicate 49 CHR ''a'') titulo
       usuario_id None \<lparr>w_db = one_essay_db, w_trace = []\<rparr>
     = (Inl NameError, \<lparr>w_db = one_essay_db, w_trace = []\<rparr>)
   \<and> processar_corpo E sv ''000000000000000000000001'' (replicate 49 CHR ''a'') titulo
       usuario_id None \<lparr>w_db = one_essay_db, w_trace = []\<rparr>
     = (Inl AttributeError, \<lparr>w_db = one_essay_db, w_trace = []\<rparr>)
   \<and> processar_corpo E sv ''000000000000000000000001'' (replicate 50 CHR ''a'') titulo
       usuario_id None \<lparr>w_db = one_essay_db, w_trace = []\<rparr>
     = (Inl AttributeError, \<lparr>w_db = one_essay_db, w_trace = []\<rparr>)
   \<and> map red_status (db_redacoes one_essay_db) = [Some ''processando'']"
  by (simp add: processar_redacao_async_raises processar_corpo_raises one_essay_db_def
      empty_db_def)

text \<open>
  Claim C1, on the code. The dictionary that the pipeline would save has the rubric of
  five competencies and the overall score 7 whenever the analysis is empty. But with a
  provider whose answers are never JSON and a text of 50 characters, the run leaves the
  function with an exception before anything is built: no analysis is saved, the provider
  is not called, and the status of the essay is not \<open>concluida\<close>.
\<close>

theorem malformed_scoring_run_saves_nothing:
  "an_notas (montar_analise redacao_id titulo [] sugestoes pontos_chave contexto_adicional)
     = notas_padrao
   \<and> (\<exists>ns. notas_padrao = JList ns \<and> length ns = 5)
   \<and> an_nota_geral (montar_analise redacao_id titulo [] sugestoes pontos_chave
        contexto_adicional) = JNum 7
   \<and> processar_redacao_async E (sv\<lparr>sv_chat := malformed_chat\<rparr>) ''000000000000000000000001''
        (replicate 50 CHR ''a'') titulo usuario_id None
        \<lparr>w_db = one_essay_db, w_trace = []\<rparr>
       = (Inl NameError, \<lparr>w_db = one_essay_db, w_trace = []\<rparr>)
   \<and> db_analises one_essay_db = []
   \<and> map red_status (db_redacoes one_essay_db) = [Some ''processando'']"
  by (simp add: processar_redacao_async_raises montar_analise_def dict_get_def
      notas_padrao_def one_essay_db_def empty_db_def)

end
